theory Spec2Isabelle
  imports Main "HOL-Library.Char_ord" "HOL-Library.List_Lexorder"
begin

section \<open>Values and their Python text\<close>

text \<open>
  The values that travel through \<^verbatim>\<open>base.py\<close>: filter operands, ids, update values and
  the cells of stored rows. \<open>VNone\<close> is Python's \<^verbatim>\<open>None\<close> and SQL's NULL, \<open>VStr\<close> also
  stands for a UUID in its textual form, \<open>VList\<close> is a Python \<^verbatim>\<open>list\<close>. Other Python
  objects (tuples, sets, dates) are not among the values of this development.
\<close>

datatype val = VNone | VBool bool | VInt int | VStr string | VList "val list"

text \<open>\<^verbatim>\<open>isinstance(val, list)\<close>, the test of the \<^verbatim>\<open>in\<close> operator.\<close>

fun is_list :: "val \<Rightarrow> bool" where
  "is_list (VList xs) = True"
| "is_list v = False"

fun str_of_nat :: "nat \<Rightarrow> string" where
  "str_of_nat n =
     (if n < 10 then [''0123456789'' ! n]
      else str_of_nat (n div 10) @ [''0123456789'' ! (n mod 10)])"

declare str_of_nat.simps [simp del]

definition str_of_int :: "int \<Rightarrow> string" where
  "str_of_int i = (if i < 0 then CHR ''-'' # str_of_nat (nat (- i)) else str_of_nat (nat i))"

fun join_with :: "string \<Rightarrow> string list \<Rightarrow> string" where
  "join_with sep [] = []"
| "join_with sep [x] = x"
| "join_with sep (x # y # ys) = x @ sep @ join_with sep (y # ys)"

text \<open>
  \<^verbatim>\<open>repr(v)\<close> and \<^verbatim>\<open>str(v)\<close>, which the f-strings of the source apply to operands and
  ids. The \<open>repr\<close> of a string is the text between single quotes: exact for text without
  quotes, backslashes and control characters, which is all the error messages below need.
\<close>

fun py_repr :: "val \<Rightarrow> string" where
  "py_repr VNone = ''None''"
| "py_repr (VBool b) = (if b then ''True'' else ''False'')"
| "py_repr (VInt i) = str_of_int i"
| "py_repr (VStr s) = [CHR 0x27] @ s @ [CHR 0x27]"
| "py_repr (VList xs) = ''['' @ join_with '', '' (map py_repr xs) @ '']''"

definition py_str :: "val \<Rightarrow> string" where
  "py_str v = (case v of VStr s \<Rightarrow> s | _ \<Rightarrow> py_repr v)"

text \<open>The \<open>repr\<close> of a keyword dictionary, as \<^verbatim>\<open>f"{search_params}"\<close> prints it.\<close>

definition py_repr_dict :: "(string \<times> val) list \<Rightarrow> string" where
  "py_repr_dict kvs =
     ''{'' @ join_with '', '' (map (\<lambda>(k, v). py_repr (VStr k) @ '': '' @ py_repr v) kvs) @ ''}''"

text \<open>
  \<^verbatim>\<open>str.lower()\<close> on the ASCII letters. Python also lowers letters beyond ASCII; none of
  them becomes \<open>a\<close>, \<open>s\<close> or \<open>c\<close>, so the comparison with \<^verbatim>\<open>"asc"\<close> is the same.
\<close>

definition lower_char :: "char \<Rightarrow> char" where
  "lower_char c =
     (case map_of (zip ''ABCDEFGHIJKLMNOPQRSTUVWXYZ'' ''abcdefghijklmnopqrstuvwxyz'') c of
        None \<Rightarrow> c | Some d \<Rightarrow> d)"

definition lower :: "string \<Rightarrow> string" where
  "lower s = map lower_char s"

text \<open>
  \<^verbatim>\<open>"__" in key\<close> and \<^verbatim>\<open>key.split("__")\<close>: the separator is found left to right,
  occurrences do not overlap, and empty segments are kept.
\<close>

fun has_sep :: "string \<Rightarrow> bool" where
  "has_sep (c # d # cs) = ((c = CHR ''_'' \<and> d = CHR ''_'') \<or> has_sep (d # cs))"
| "has_sep cs = False"

fun split_from :: "string \<Rightarrow> string \<Rightarrow> string list" where
  "split_from acc [] = [rev acc]"
| "split_from acc [c] = [rev (c # acc)]"
| "split_from acc (c # d # cs) =
     (if c = CHR ''_'' \<and> d = CHR ''_'' then rev acc # split_from [] cs
      else split_from (c # acc) (d # cs))"

definition split_sep :: "string \<Rightarrow> string list" where
  "split_sep key = split_from [] key"

section \<open>The entity descriptor\<close>

text \<open>
  What \<^verbatim>\<open>getattr(self.model, name, None)\<close> can return. A mapped column and a relationship
  both carry a \<^verbatim>\<open>property\<close>; only the relationship's property has a \<^verbatim>\<open>mapper\<close>, whose
  class is the target entity. \<open>Plain\<close> is any other attribute of the class (a method, the
  table name): it has no \<^verbatim>\<open>property\<close>. A relationship is a collection (one-to-many),
  the kind \<^verbatim>\<open>any()\<close> is defined on, joined on one column pair: a parent row and a
  target row are related when the parent's local column equals the target's remote
  column.
\<close>

datatype model = Model (mname: string) (mattrs: "(string \<times> attr) list")
  and attr = Column string | Relationship model string string | Plain

definition getattr :: "model \<Rightarrow> string \<Rightarrow> attr option" where
  "getattr m a = map_of (mattrs m) a"

fun has_property :: "attr \<Rightarrow> bool" where
  "has_property Plain = False"
| "has_property a = True"

section \<open>Errors\<close>

text \<open>
  The exceptions of the source are values. \<open>AttributeError\<close>, \<open>NoResultFound\<close> and
  \<open>ValueError\<close> carry the message the source formats; \<open>TypeError\<close> carries the keyword
  Python finds bound twice in a call; \<open>KeyError\<close> and \<open>IndexError\<close> are the failures of
  \<^verbatim>\<open>OPERATORS[op]\<close> and \<^verbatim>\<open>parts[i]\<close>. \<open>ArgumentError\<close> is raised by a column operator
  that does not take \<^verbatim>\<open>None\<close>, \<^verbatim>\<open>True\<close> or \<^verbatim>\<open>False\<close>; \<open>CompileError\<close> and
  \<open>OperationalError\<close> are raised when a statement is executed. \<open>Unsupported\<close> marks the
  places where the source hands an attribute that is not a mapped column to a column
  operation: what happens there is decided inside the mapping layer and is not part of
  this development, so no theorem below reads \<open>Unsupported\<close> as a failure or as a
  success.
\<close>

datatype error =
    AttributeError string
  | NoResultFound string
  | ValueError string
  | TypeError string
  | KeyError string
  | IndexError
  | ArgumentError
  | CompileError
  | OperationalError
  | Unsupported

text \<open>
  \<^verbatim>\<open>rel_attr.property.mapper.class_\<close>: a column's property has no \<^verbatim>\<open>mapper\<close>, and
  reading it raises the mapping layer's own \<^verbatim>\<open>AttributeError\<close>, whose message is the
  attribute's name. The caller has tested \<open>has_property\<close> before, so the \<open>Plain\<close> case
  is never reached.
\<close>

definition no_mapper :: error where
  "no_mapper = AttributeError ''mapper''"

fun mapper_class :: "attr \<Rightarrow> error + model" where
  "mapper_class (Relationship t l r) = Inr t"
| "mapper_class (Column c) = Inl no_mapper"
| "mapper_class Plain = Inl Unsupported"

section \<open>Query expressions and the Operator Table\<close>

text \<open>
  The expression each lambda of \<^verbatim>\<open>OPERATORS\<close> builds on a column, and
  \<^verbatim>\<open>rel_attr.any(criterion)\<close>, which carries the relationship's target and join columns.
\<close>

datatype expr =
    Eq string val
  | ILike string val
  | Contains string val
  | InList string "val list"
  | Gt string val
  | Ge string val
  | Lt string val
  | Le string val
  | StartsWith string val
  | EndsWith string val
  | AnyRel string string string expr

text \<open>
  The comparison every column operator but \<^verbatim>\<open>==\<close> and \<^verbatim>\<open>in_\<close> goes through: it takes
  no \<^verbatim>\<open>None\<close>, \<^verbatim>\<open>True\<close> or \<^verbatim>\<open>False\<close> and raises \<^verbatim>\<open>ArgumentError\<close> while the
  expression is built. \<^verbatim>\<open>col == None\<close> is allowed and means \<^verbatim>\<open>IS NULL\<close>; the f-strings
  of the case-insensitive operators turn every operand into text first.
\<close>

definition boolean_compare :: "(string \<Rightarrow> val \<Rightarrow> expr) \<Rightarrow> string \<Rightarrow> val \<Rightarrow> error + expr" where
  "boolean_compare build col val =
     (case val of
        VNone \<Rightarrow> Inl ArgumentError
      | VBool b \<Rightarrow> Inl ArgumentError
      | _ \<Rightarrow> Inr (build col val))"

definition OPERATORS :: "(string \<times> (string \<Rightarrow> val \<Rightarrow> error + expr)) list" where
  "OPERATORS =
     [(''exact'', \<lambda>col val. Inr (Eq col val)),
      (''iexact'', \<lambda>col val. boolean_compare ILike col val),
      (''contains'', \<lambda>col val. boolean_compare Contains col val),
      (''icontains'', \<lambda>col val. Inr (ILike col (VStr (''%'' @ py_str val @ ''%'')))),
      (''in'', \<lambda>col val. (if is_list val
                           then Inr (InList col (case val of VList xs \<Rightarrow> xs | _ \<Rightarrow> []))
                           else Inr (InList col [val]))),
      (''gt'', \<lambda>col val. boolean_compare Gt col val),
      (''gte'', \<lambda>col val. boolean_compare Ge col val),
      (''lt'', \<lambda>col val. boolean_compare Lt col val),
      (''lte'', \<lambda>col val. boolean_compare Le col val),
      (''startswith'', \<lambda>col val. boolean_compare StartsWith col val),
      (''istartswith'', \<lambda>col val. Inr (ILike col (VStr (py_str val @ ''%'')))),
      (''endswith'', \<lambda>col val. boolean_compare EndsWith col val),
      (''iendswith'', \<lambda>col val. Inr (ILike col (VStr (''%'' @ py_str val))))]"

text \<open>\<^verbatim>\<open>OPERATORS[op](column, value)\<close>, on whatever \<open>getattr\<close> returned.\<close>

definition apply_operator :: "string \<Rightarrow> attr \<Rightarrow> val \<Rightarrow> error + expr" where
  "apply_operator op a v =
     (case map_of OPERATORS op of
        None \<Rightarrow> Inl (KeyError op)
      | Some f \<Rightarrow> (case a of Column c \<Rightarrow> f c v | _ \<Rightarrow> Inl Unsupported))"

section \<open>The filter compiler\<close>

definition no_attribute :: "model \<Rightarrow> string \<Rightarrow> error" where
  "no_attribute m a = AttributeError (mname m @ '' has no attribute '' @ py_repr (VStr a))"

definition no_relationship :: "model \<Rightarrow> string \<Rightarrow> error" where
  "no_relationship m a = AttributeError (mname m @ '' has no relationship '' @ py_repr (VStr a))"

text \<open>
  The operator is popped when the last segment is a key of \<^verbatim>\<open>OPERATORS\<close>; it is
  \<^verbatim>\<open>"exact"\<close> otherwise and the segments stay as they are.
\<close>

definition pop_operator :: "string list \<Rightarrow> string \<times> string list" where
  "pop_operator parts =
     (if parts \<noteq> [] \<and> last parts \<in> set (map fst OPERATORS) then (last parts, butlast parts)
      else (''exact'', parts))"

text \<open>The body of the loop of \<^verbatim>\<open>__get_conditions\<close>, for one key and its value.\<close>

definition compile_key :: "model \<Rightarrow> string \<Rightarrow> val \<Rightarrow> error + expr" where
  "compile_key m key v =
     (if has_sep key then
        (case pop_operator (split_sep key) of (op, parts) \<Rightarrow>
          (case parts of
             [] \<Rightarrow> Inl IndexError
           | [p] \<Rightarrow>
               (case getattr m p of
                  None \<Rightarrow> Inl (no_attribute m p)
                | Some column \<Rightarrow> apply_operator op column v)
           | p0 # p1 # rest \<Rightarrow>
               (case getattr m p0 of
                  None \<Rightarrow> Inl (no_relationship m p0)
                | Some rel_attr \<Rightarrow>
                    if \<not> has_property rel_attr then Inl (no_relationship m p0)
                    else
                      (case mapper_class rel_attr of
                         Inl e \<Rightarrow> Inl e
                       | Inr target_cls \<Rightarrow>
                           (case getattr target_cls p1 of
                              None \<Rightarrow> Inl (no_attribute target_cls p1)
                            | Some target_column \<Rightarrow>
                                (case apply_operator op target_column v of
                                   Inl e \<Rightarrow> Inl e
                                 | Inr criterion \<Rightarrow>
                                     (case rel_attr of
                                        Relationship t l r \<Rightarrow> Inr (AnyRel (mname t) l r criterion)
                                      | _ \<Rightarrow> Inl Unsupported)))))))
      else
        (case getattr m key of
           None \<Rightarrow> Inl (no_attribute m key)
         | Some column \<Rightarrow> (case column of Column c \<Rightarrow> Inr (Eq c v) | _ \<Rightarrow> Inl Unsupported)))"

fun get_conditions :: "model \<Rightarrow> (string \<times> val) list \<Rightarrow> error + expr list" where
  "get_conditions m [] = Inr []"
| "get_conditions m ((key, v) # rest) =
     (case compile_key m key v of
        Inl e \<Rightarrow> Inl e
      | Inr c \<Rightarrow> (case get_conditions m rest of Inl e \<Rightarrow> Inl e | Inr cs \<Rightarrow> Inr (c # cs)))"

section \<open>The backing store\<close>

text \<open>
  The execution context is outside \<^verbatim>\<open>base.py\<close>; this is its reference semantics for the
  statements the repository builds. A table is the list of its rows in insertion order,
  found under the entity's name; a row is its cells by column name, and a column a row
  lacks reads as NULL. A condition selects a row when it evaluates to true, so a
  comparison with NULL selects nothing. A list is the candidate list of \<^verbatim>\<open>IN\<close>; how a
  driver binds a list to a single parameter is not part of this semantics.
\<close>

type_synonym row = "(string \<times> val) list"

type_synonym tables = "string \<Rightarrow> row list"

definition cell :: "row \<Rightarrow> string \<Rightarrow> val" where
  "cell r c = (case map_of r c of None \<Rightarrow> VNone | Some v \<Rightarrow> v)"

fun set_cell :: "string \<Rightarrow> val \<Rightarrow> row \<Rightarrow> row" where
  "set_cell c v [] = [(c, v)]"
| "set_cell c v ((k, w) # r) = (if k = c then (c, v) # r else (k, w) # set_cell c v r)"

definition assign :: "(string \<times> val) list \<Rightarrow> row \<Rightarrow> row" where
  "assign updates r = fold (\<lambda>(c, v). set_cell c v) updates r"

definition sql_eq :: "val \<Rightarrow> val \<Rightarrow> bool" where
  "sql_eq a b = (a \<noteq> VNone \<and> b \<noteq> VNone \<and> a = b)"

fun sql_less :: "val \<Rightarrow> val \<Rightarrow> bool" where
  "sql_less (VInt a) (VInt b) = (a < b)"
| "sql_less (VStr a) (VStr b) = (a < b)"
| "sql_less (VBool a) (VBool b) = (a < b)"
| "sql_less a b = False"

text \<open>\<^verbatim>\<open>LIKE\<close>: \<open>%\<close> matches any text, \<open>_\<close> any one character.\<close>

fun like_match :: "string \<Rightarrow> string \<Rightarrow> bool" where
  "like_match [] s = (s = [])"
| "like_match (p # ps) [] = (p = CHR ''%'' \<and> like_match ps [])"
| "like_match (p # ps) (c # cs) =
     (if p = CHR ''%'' then like_match ps (c # cs) \<or> like_match (p # ps) cs
      else (p = CHR ''_'' \<or> p = c) \<and> like_match ps cs)"

definition text_like :: "(string \<Rightarrow> string) \<Rightarrow> val \<Rightarrow> val \<Rightarrow> bool" where
  "text_like pattern subject operand =
     (case subject of
        VStr s \<Rightarrow> (case operand of VStr t \<Rightarrow> like_match (pattern t) s | _ \<Rightarrow> False)
      | _ \<Rightarrow> False)"

text \<open>
  When an expression is true of a row. \<^verbatim>\<open>col == None\<close> is \<^verbatim>\<open>IS NULL\<close>; \<open>AnyRel\<close> is
  \<^verbatim>\<open>EXISTS\<close> over the rows of the target table that the join columns relate to the row.
\<close>

fun holds :: "tables \<Rightarrow> row \<Rightarrow> expr \<Rightarrow> bool" where
  "holds st r (Eq c v) = (if v = VNone then cell r c = VNone else sql_eq (cell r c) v)"
| "holds st r (ILike c v) =
     text_like lower (case cell r c of VStr s \<Rightarrow> VStr (lower s) | w \<Rightarrow> w) v"
| "holds st r (Contains c v) = text_like (\<lambda>t. ''%'' @ t @ ''%'') (cell r c) v"
| "holds st r (InList c vs) = list_ex (sql_eq (cell r c)) vs"
| "holds st r (Gt c v) = sql_less v (cell r c)"
| "holds st r (Ge c v) = (sql_less v (cell r c) \<or> sql_eq (cell r c) v)"
| "holds st r (Lt c v) = sql_less (cell r c) v"
| "holds st r (Le c v) = (sql_less (cell r c) v \<or> sql_eq (cell r c) v)"
| "holds st r (StartsWith c v) = text_like (\<lambda>t. t @ ''%'') (cell r c) v"
| "holds st r (EndsWith c v) = text_like (\<lambda>t. ''%'' @ t) (cell r c) v"
| "holds st r (AnyRel t l rm e) =
     list_ex (\<lambda>child. sql_eq (cell r l) (cell child rm) \<and> holds st child e) (st t)"

text \<open>\<^verbatim>\<open>.where(*conditions)\<close>: all of the conditions.\<close>

definition satisfies :: "tables \<Rightarrow> expr list \<Rightarrow> row \<Rightarrow> bool" where
  "satisfies st conds r = list_all (holds st r) conds"

text \<open>
  An instance is a row with its position in the table, which is its identity. Without
  an \<^verbatim>\<open>ORDER BY\<close> the rows come in table order.
\<close>

type_synonym entity = "nat \<times> row"

definition matching :: "tables \<Rightarrow> model \<Rightarrow> expr list \<Rightarrow> entity list" where
  "matching st m conds = filter (\<lambda>(i, r). satisfies st conds r) (enumerate 0 (st (mname m)))"

datatype direction = Asc | Desc

fun rank :: "val \<Rightarrow> nat" where
  "rank VNone = 0"
| "rank (VBool b) = 1"
| "rank (VInt i) = 2"
| "rank (VStr s) = 3"
| "rank v = 4"

definition order_le :: "val \<Rightarrow> val \<Rightarrow> bool" where
  "order_le a b = (rank a < rank b \<or> (rank a = rank b \<and> \<not> sql_less b a))"

fun insert_by :: "('a \<Rightarrow> 'a \<Rightarrow> bool) \<Rightarrow> 'a \<Rightarrow> 'a list \<Rightarrow> 'a list" where
  "insert_by le x [] = [x]"
| "insert_by le x (y # ys) = (if le x y then x # y # ys else y # insert_by le x ys)"

definition sort_by :: "('a \<Rightarrow> 'a \<Rightarrow> bool) \<Rightarrow> 'a list \<Rightarrow> 'a list" where
  "sort_by le xs = foldr (insert_by le) xs []"

definition ordered :: "(string \<times> direction) option \<Rightarrow> entity list \<Rightarrow> entity list" where
  "ordered ob xs =
     (case ob of
        None \<Rightarrow> xs
      | Some (c, Asc) \<Rightarrow> sort_by (\<lambda>(i, r) (j, s). order_le (cell r c) (cell s c)) xs
      | Some (c, Desc) \<Rightarrow> sort_by (\<lambda>(i, r) (j, s). order_le (cell s c) (cell r c)) xs)"

section \<open>Statements and the session\<close>

text \<open>
  The query \<^verbatim>\<open>select(self.model)\<close> grows into: conditions, loader options, the ordering,
  limit and offset. Loader options say how related rows are loaded and select nothing.
\<close>

datatype load_option = Joinedload string | Lazyload string

record query =
  q_model :: model
  q_conditions :: "expr list"
  q_options :: "load_option list"
  q_order_by :: "(string \<times> direction) option"
  q_limit :: "nat option"
  q_offset :: "nat option"

datatype stmt =
    Select query
  | SelectCount model "expr list"
  | Update model "expr list" "(string \<times> val) list"
  | Delete model "expr list"

datatype result = Rows "entity list" | Scalar val | RowCount nat

fun scalars :: "result \<Rightarrow> entity list" where
  "scalars (Rows xs) = xs"
| "scalars res = []"

fun first :: "'a list \<Rightarrow> 'a option" where
  "first [] = None"
| "first (x # xs) = Some x"

fun scalar :: "result \<Rightarrow> val" where
  "scalar (Scalar v) = v"
| "scalar res = VNone"

fun rowcount :: "result \<Rightarrow> nat" where
  "rowcount (RowCount n) = n"
| "rowcount res = 0"

definition page :: "nat option \<Rightarrow> nat option \<Rightarrow> 'a list \<Rightarrow> 'a list" where
  "page lim off xs =
     (let ys = (case off of None \<Rightarrow> xs | Some k \<Rightarrow> drop k xs)
      in case lim of None \<Rightarrow> ys | Some n \<Rightarrow> take n ys)"

text \<open>
  The values of \<^verbatim>\<open>.values(**updates)\<close>, by column. The keys are attribute names of the
  entity; a key that is no mapped column of it is left unconsumed when the statement is
  compiled.
\<close>

fun is_column :: "attr option \<Rightarrow> bool" where
  "is_column (Some (Column c)) = True"
| "is_column a = False"

definition mapped_values :: "model \<Rightarrow> (string \<times> val) list \<Rightarrow> (string \<times> val) list" where
  "mapped_values m kvs =
     concat (map (\<lambda>(k, v). case getattr m k of Some (Column c) \<Rightarrow> [(c, v)] | _ \<Rightarrow> []) kvs)"

text \<open>
  What executing a statement returns and does to the tables. An \<^verbatim>\<open>UPDATE\<close> with no
  value at all is sent with an empty \<^verbatim>\<open>SET\<close> and refused by the database; one with a
  key that is no column of the entity fails to compile; neither changes a row.
\<close>

fun run :: "stmt \<Rightarrow> tables \<Rightarrow> error + result \<times> tables" where
  "run (Select q) st =
     Inr (Rows (page (q_limit q) (q_offset q)
                  (ordered (q_order_by q) (matching st (q_model q) (q_conditions q)))), st)"
| "run (SelectCount m conds) st =
     Inr (Scalar (VInt (int (length (matching st m conds)))), st)"
| "run (Update m conds updates) st =
     (if updates = [] then Inl OperationalError
      else if \<not> list_all (\<lambda>(k, v). is_column (getattr m k)) updates then Inl CompileError
      else Inr (RowCount (length (matching st m conds)),
                st(mname m := map (\<lambda>r. if satisfies st conds r
                                         then assign (mapped_values m updates) r else r)
                                  (st (mname m)))))"
| "run (Delete m conds) st =
     Inr (RowCount (length (matching st m conds)),
          st(mname m := filter (\<lambda>r. \<not> satisfies st conds r) (st (mname m))))"

text \<open>
  The session: the tables, the statements handed to \<^verbatim>\<open>execute\<close> so far, in order,
  whether or not they went through, and the number of commits. An operation that fails
  before it executes anything leaves \<open>executed\<close> as it was.
\<close>

record session =
  store :: tables
  executed :: "stmt list"
  commits :: nat

definition execute :: "stmt \<Rightarrow> session \<Rightarrow> (error + result) \<times> session" where
  "execute q s =
     (case run q (store s) of
        Inl e \<Rightarrow> (Inl e, s\<lparr>executed := executed s @ [q]\<rparr>)
      | Inr (res, st) \<Rightarrow> (Inr res, s\<lparr>store := st, executed := executed s @ [q]\<rparr>))"

definition commit :: "session \<Rightarrow> session" where
  "commit s = s\<lparr>commits := Suc (commits s)\<rparr>"

text \<open>Staging one instance: a changed one is written back, a deleted one removed.\<close>

definition write_back :: "model \<Rightarrow> entity \<Rightarrow> session \<Rightarrow> session" where
  "write_back m inst s =
     s\<lparr>store := (store s)(mname m := (store s (mname m))[fst inst := snd inst])\<rparr>"

definition delete_instance :: "model \<Rightarrow> entity \<Rightarrow> session \<Rightarrow> session" where
  "delete_instance m inst s =
     s\<lparr>store := (store s)(mname m :=
          take (fst inst) (store s (mname m)) @ drop (Suc (fst inst)) (store s (mname m)))\<rparr>"

definition add_instance :: "model \<Rightarrow> row \<Rightarrow> session \<Rightarrow> entity \<times> session" where
  "add_instance m r s =
     ((length (store s (mname m)), r),
      s\<lparr>store := (store s)(mname m := store s (mname m) @ [r])\<rparr>)"

definition refresh :: "model \<Rightarrow> entity \<Rightarrow> session \<Rightarrow> entity" where
  "refresh m inst s =
     (if fst inst < length (store s (mname m)) then (fst inst, store s (mname m) ! fst inst)
      else inst)"

section \<open>The repository\<close>

text \<open>
  \<^verbatim>\<open>BaseRepository\<close>: the entity descriptor and the default scope of the subclass. The
  session is passed to each operation and returned with its result. Keyword arguments
  are the list of their pairs, in the order Python iterates them.
\<close>

record repository =
  model :: model
  default_scope :: "(string \<times> val) list"

definition init :: "model option \<Rightarrow> (string \<times> val) list \<Rightarrow> error + repository" where
  "init m scope =
     (case m of
        None \<Rightarrow> Inl (ValueError ''Model is not set for this repository.'')
      | Some md \<Rightarrow> Inr \<lparr>model = md, default_scope = scope\<rparr>)"

definition apply_order_by :: "model \<Rightarrow> query \<Rightarrow> string \<Rightarrow> string \<Rightarrow> error + query" where
  "apply_order_by m q sorted_by sorted_order =
     (case getattr m sorted_by of
        None \<Rightarrow> Inl (no_attribute m sorted_by)
      | Some column \<Rightarrow>
          (case column of
             Column c \<Rightarrow>
               if lower sorted_order = ''asc'' then Inr (q\<lparr>q_order_by := Some (c, Asc)\<rparr>)
               else Inr (q\<lparr>q_order_by := Some (c, Desc)\<rparr>)
           | _ \<Rightarrow> Inl Unsupported))"

text \<open>
  \<^verbatim>\<open>__generate_query\<close>. \<^verbatim>\<open>if joinedload_models:\<close>, \<^verbatim>\<open>if lazyload_models:\<close> and
  \<^verbatim>\<open>if sorted_by:\<close> skip an argument that is \<^verbatim>\<open>None\<close> or empty.
\<close>

definition load_options :: "string list option \<Rightarrow> string list option \<Rightarrow> load_option list" where
  "load_options joinedload_models lazyload_models =
     (case joinedload_models of None \<Rightarrow> [] | Some js \<Rightarrow> map Joinedload js)
     @ (case lazyload_models of None \<Rightarrow> [] | Some ls \<Rightarrow> map Lazyload ls)"

definition generate_query ::
  "repository \<Rightarrow> nat \<Rightarrow> nat \<Rightarrow> string option \<Rightarrow> string \<Rightarrow> string list option \<Rightarrow>
   string list option \<Rightarrow> bool \<Rightarrow> (string \<times> val) list \<Rightarrow> error + query" where
  "generate_query repo limit offset sorted_by sorted_order joinedload_models lazyload_models
       disable_default_scope search_params =
     (case (if \<not> disable_default_scope then get_conditions (model repo) (default_scope repo)
            else Inr []) of
        Inl e \<Rightarrow> Inl e
      | Inr default_conditions \<Rightarrow>
          (case get_conditions (model repo) search_params of
             Inl e \<Rightarrow> Inl e
           | Inr conditions \<Rightarrow>
               (let q = \<lparr>q_model = model repo,
                         q_conditions = default_conditions @ conditions,
                         q_options = load_options joinedload_models lazyload_models,
                         q_order_by = None, q_limit = None, q_offset = None\<rparr>
                in case (case sorted_by of
                           None \<Rightarrow> Inr q
                         | Some sb \<Rightarrow>
                             if sb = [] then Inr q
                             else apply_order_by (model repo) q sb sorted_order) of
                     Inl e \<Rightarrow> Inl e
                   | Inr q' \<Rightarrow> Inr (q'\<lparr>q_limit := Some limit, q_offset := Some offset\<rparr>))))"

definition find ::
  "repository \<Rightarrow> val \<Rightarrow> string option \<Rightarrow> string \<Rightarrow> string list option \<Rightarrow>
   string list option \<Rightarrow> bool \<Rightarrow> session \<Rightarrow> (error + entity) \<times> session" where
  "find repo ident sorted_by sorted_order joinedload_models lazyload_models
       disable_default_scope s =
     (case generate_query repo 1 0 sorted_by sorted_order joinedload_models lazyload_models
             disable_default_scope [(''id'', ident)] of
        Inl e \<Rightarrow> (Inl e, s)
      | Inr q \<Rightarrow>
          (case execute (Select q) s of
             (Inl e, s') \<Rightarrow> (Inl e, s')
           | (Inr res, s') \<Rightarrow>
               (case first (scalars res) of
                  None \<Rightarrow>
                    (Inl (NoResultFound
                       (mname (model repo) @ '' with id '' @ py_str ident @ '' not found.'')), s')
                | Some inst \<Rightarrow> (Inr inst, s'))))"

text \<open>
  \<^verbatim>\<open>find_by\<close> passes \<^verbatim>\<open>limit=1, offset=0\<close> next to \<^verbatim>\<open>**search_params\<close>: a filter key
  named \<open>limit\<close> or \<open>offset\<close> is bound twice in that call, which Python refuses with a
  \<^verbatim>\<open>TypeError\<close> before \<^verbatim>\<open>__generate_query\<close> runs.
\<close>

definition bound_twice :: "(string \<times> val) list \<Rightarrow> string option" where
  "bound_twice search_params =
     first (filter (\<lambda>k. k = ''limit'' \<or> k = ''offset'') (map fst search_params))"

definition find_by ::
  "repository \<Rightarrow> string option \<Rightarrow> string \<Rightarrow> string list option \<Rightarrow> string list option \<Rightarrow>
   bool \<Rightarrow> (string \<times> val) list \<Rightarrow> session \<Rightarrow> (error + entity option) \<times> session" where
  "find_by repo sorted_by sorted_order joinedload_models lazyload_models
       disable_default_scope search_params s =
     (case bound_twice search_params of
        Some k \<Rightarrow> (Inl (TypeError k), s)
      | None \<Rightarrow>
          (case generate_query repo 1 0 sorted_by sorted_order joinedload_models
                  lazyload_models disable_default_scope search_params of
             Inl e \<Rightarrow> (Inl e, s)
           | Inr q \<Rightarrow>
               (case execute (Select q) s of
                  (Inl e, s') \<Rightarrow> (Inl e, s')
                | (Inr res, s') \<Rightarrow> (Inr (first (scalars res)), s'))))"

definition find_by_or_raise ::
  "repository \<Rightarrow> string option \<Rightarrow> string \<Rightarrow> string list option \<Rightarrow> string list option \<Rightarrow>
   bool \<Rightarrow> (string \<times> val) list \<Rightarrow> session \<Rightarrow> (error + entity) \<times> session" where
  "find_by_or_raise repo sorted_by sorted_order joinedload_models lazyload_models
       disable_default_scope search_params s =
     (case find_by repo sorted_by sorted_order joinedload_models lazyload_models
             disable_default_scope search_params s of
        (Inl e, s') \<Rightarrow> (Inl e, s')
      | (Inr None, s') \<Rightarrow>
          (Inl (NoResultFound
             (mname (model repo) @ '' with attributes '' @ py_repr_dict search_params
                @ '' not found.'')), s')
      | (Inr (Some inst), s') \<Rightarrow> (Inr inst, s'))"

text \<open>
  \<^verbatim>\<open>where\<close>; \<^verbatim>\<open>result.unique()\<close> keeps the first occurrence of each entity, and
  \<^verbatim>\<open>.all()\<close> returns them as a list.
\<close>

fun unique_from :: "'a list \<Rightarrow> 'a list \<Rightarrow> 'a list" where
  "unique_from seen [] = []"
| "unique_from seen (x # xs) =
     (if x \<in> set seen then unique_from seen xs else x # unique_from (x # seen) xs)"

definition unique :: "'a list \<Rightarrow> 'a list" where
  "unique xs = unique_from [] xs"

definition where_rows ::
  "repository \<Rightarrow> nat \<Rightarrow> nat \<Rightarrow> string option \<Rightarrow> string \<Rightarrow> string list option \<Rightarrow>
   string list option \<Rightarrow> bool \<Rightarrow> (string \<times> val) list \<Rightarrow> session \<Rightarrow>
   (error + entity list) \<times> session" where
  "where_rows repo limit offset sorted_by sorted_order joinedload_models lazyload_models
       disable_default_scope search_params s =
     (case generate_query repo limit offset sorted_by sorted_order joinedload_models
             lazyload_models disable_default_scope search_params of
        Inl e \<Rightarrow> (Inl e, s)
      | Inr q \<Rightarrow>
          (case execute (Select q) s of
             (Inl e, s') \<Rightarrow> (Inl e, s')
           | (Inr res, s') \<Rightarrow> (Inr (unique (scalars res)), s')))"

text \<open>\<^verbatim>\<open>result.scalar() or 0\<close>.\<close>

fun or_zero :: "val \<Rightarrow> int" where
  "or_zero (VInt n) = (if n \<noteq> 0 then n else 0)"
| "or_zero (VBool b) = (if b then 1 else 0)"
| "or_zero v = 0"

definition count ::
  "repository \<Rightarrow> bool \<Rightarrow> (string \<times> val) list \<Rightarrow> session \<Rightarrow> (error + int) \<times> session" where
  "count repo disable_default_scope search_params s =
     (case (if \<not> disable_default_scope then get_conditions (model repo) (default_scope repo)
            else Inr []) of
        Inl e \<Rightarrow> (Inl e, s)
      | Inr default_conditions \<Rightarrow>
          (case get_conditions (model repo) search_params of
             Inl e \<Rightarrow> (Inl e, s)
           | Inr conditions \<Rightarrow>
               (case execute (SelectCount (model repo) (default_conditions @ conditions)) s of
                  (Inl e, s') \<Rightarrow> (Inl e, s')
                | (Inr res, s') \<Rightarrow> (Inr (or_zero (scalar res)), s'))))"

definition exists ::
  "repository \<Rightarrow> bool \<Rightarrow> (string \<times> val) list \<Rightarrow> session \<Rightarrow> (error + bool) \<times> session" where
  "exists repo disable_default_scope search_params s =
     (case count repo disable_default_scope search_params s of
        (Inl e, s') \<Rightarrow> (Inl e, s')
      | (Inr counted, s') \<Rightarrow> (Inr (counted > 0), s'))"

text \<open>
  \<^verbatim>\<open>create\<close>: the entity's constructor takes the names of its attributes only and
  raises \<^verbatim>\<open>TypeError\<close> on another keyword. The row that is stored holds the values of
  the mapped columns; defaults the database generates are not modelled.
\<close>

definition create ::
  "repository \<Rightarrow> (string \<times> val) list \<Rightarrow> session \<Rightarrow> (error + entity) \<times> session" where
  "create repo create_params s =
     (case first (filter (\<lambda>k. getattr (model repo) k = None) (map fst create_params)) of
        Some k \<Rightarrow> (Inl (TypeError k), s)
      | None \<Rightarrow>
          (case add_instance (model repo) (mapped_values (model repo) create_params) s of
             (inst, s1) \<Rightarrow> (let s2 = commit s1 in (Inr (refresh (model repo) inst s2), s2))))"

text \<open>
  \<^verbatim>\<open>update\<close> and \<^verbatim>\<open>destroy\<close> call \<^verbatim>\<open>self.find(id)\<close> with every other argument at its
  default, \<^verbatim>\<open>disable_default_scope=False\<close> among them. \<^verbatim>\<open>setattr\<close> on a name that is
  no mapped column sets an attribute of the object only: the commit writes the mapped
  columns, and the entity returned is the row read back.
\<close>

definition update ::
  "repository \<Rightarrow> val \<Rightarrow> (string \<times> val) list \<Rightarrow> session \<Rightarrow> (error + entity) \<times> session" where
  "update repo ident update_params s =
     (case find repo ident None ''asc'' None None False s of
        (Inl e, s') \<Rightarrow> (Inl e, s')
      | (Inr inst, s') \<Rightarrow>
          (let inst' = (fst inst, assign (mapped_values (model repo) update_params) (snd inst));
               s2 = commit (write_back (model repo) inst' s')
           in (Inr (refresh (model repo) inst' s2), s2)))"

definition update_all ::
  "repository \<Rightarrow> (string \<times> val) list \<Rightarrow> (string \<times> val) list \<Rightarrow> session \<Rightarrow>
   (error + nat) \<times> session" where
  "update_all repo updates search_params s =
     (case get_conditions (model repo) search_params of
        Inl e \<Rightarrow> (Inl e, s)
      | Inr conditions \<Rightarrow>
          (case execute (Update (model repo) conditions updates) s of
             (Inl e, s') \<Rightarrow> (Inl e, s')
           | (Inr res, s') \<Rightarrow> (Inr (rowcount res), commit s')))"

definition destroy :: "repository \<Rightarrow> val \<Rightarrow> session \<Rightarrow> (error + unit) \<times> session" where
  "destroy repo ident s =
     (case find repo ident None ''asc'' None None False s of
        (Inl e, s') \<Rightarrow> (Inl e, s')
      | (Inr inst, s') \<Rightarrow> (Inr (), commit (delete_instance (model repo) inst s')))"

definition destroy_all ::
  "repository \<Rightarrow> (string \<times> val) list \<Rightarrow> session \<Rightarrow> (error + nat) \<times> session" where
  "destroy_all repo search_params s =
     (case get_conditions (model repo) search_params of
        Inl e \<Rightarrow> (Inl e, s)
      | Inr conditions \<Rightarrow>
          (case execute (Delete (model repo) conditions) s of
             (Inl e, s') \<Rightarrow> (Inl e, s')
           | (Inr res, s') \<Rightarrow> (Inr (rowcount res), commit s')))"

section \<open>The claim's reading of the \<^verbatim>\<open>in\<close> operator\<close>




section \<open>Names that do not resolve\<close>

text \<open>
  The entity and the name a filter key fails to resolve, if any: the field of a plain
  or \<open>field__operator\<close> key on the repository's entity, and for a key with two or more
  segments the relationship on the repository's entity, then the field on the
  relationship's target.
\<close>

definition unresolved :: "model \<Rightarrow> string \<Rightarrow> (model \<times> string) option" where
  "unresolved m key =
     (if \<not> has_sep key then (if getattr m key = None then Some (m, key) else None)
      else
        (case snd (pop_operator (split_sep key)) of
           [] \<Rightarrow> None
         | [p] \<Rightarrow> (if getattr m p = None then Some (m, p) else None)
         | p0 # p1 # rest \<Rightarrow>
             (case getattr m p0 of
                None \<Rightarrow> Some (m, p0)
              | Some (Relationship t l r) \<Rightarrow>
                  (if getattr t p1 = None then Some (t, p1) else None)
              | Some a \<Rightarrow> None)))"

text \<open>An error that identifies an entity type and a name.\<close>

definition identifies :: "error \<Rightarrow> model \<Rightarrow> string \<Rightarrow> bool" where
  "identifies e m a = (e = no_attribute m a \<or> e = no_relationship m a)"

section \<open>An example schema and store\<close>

text \<open>
  The \<open>User\<close> entity of the test suite, with a one-to-many relationship to a \<open>Post\<close>
  entity, and a store of three users and two posts of the first user.
\<close>

definition Post :: model where
  "Post = Model ''Post''
     [(''id'', Column ''id''), (''user_id'', Column ''user_id''), (''title'', Column ''title'')]"

definition User :: model where
  "User = Model ''User''
     [(''id'', Column ''id''), (''name'', Column ''name''), (''age'', Column ''age''),
      (''is_active'', Column ''is_active''),
      (''posts'', Relationship Post ''id'' ''user_id''),
      (''metadata'', Plain)]"

definition user_rows :: "row list" where
  "user_rows =
     [[(''id'', VInt 1), (''name'', VStr ''Test User''), (''age'', VInt 30),
       (''is_active'', VBool True)],
      [(''id'', VInt 2), (''name'', VStr ''Bob''), (''age'', VInt 18),
       (''is_active'', VBool False)],
      [(''id'', VInt 3), (''name'', VStr ''Eve''), (''age'', VInt 80),
       (''is_active'', VBool True)]]"

definition post_rows :: "row list" where
  "post_rows =
     [[(''id'', VInt 1), (''user_id'', VInt 1), (''title'', VStr ''x'')],
      [(''id'', VInt 2), (''user_id'', VInt 1), (''title'', VStr ''x'')]]"

definition example_tables :: tables where
  "example_tables = ((\<lambda>t. [])(''User'' := user_rows))(''Post'' := post_rows)"

definition example_session :: session where
  "example_session = \<lparr>store = example_tables, executed = [], commits = 0\<rparr>"

definition active_users :: repository where
  "active_users = \<lparr>model = User, default_scope = [(''is_active'', VBool True)]\<rparr>"

definition all_users :: repository where
  "all_users = \<lparr>model = User, default_scope = []\<rparr>"

text \<open>A repository whose default scope names a column the entity lacks.\<close>

definition soft_deleted :: repository where
  "soft_deleted = \<lparr>model = User, default_scope = [(''deleted_at'', VNone)]\<rparr>"

text \<open>An entity with a column named \<open>limit\<close>, and a store with one row of it.\<close>

definition Quota :: model where
  "Quota = Model ''Quota'' [(''id'', Column ''id''), (''limit'', Column ''limit'')]"

definition quotas :: repository where
  "quotas = \<lparr>model = Quota, default_scope = []\<rparr>"

definition quota_session :: session where
  "quota_session =
     \<lparr>store = (\<lambda>t. [])(''Quota'' := [[(''id'', VInt 1), (''limit'', VInt 10)]]),
      executed = [], commits = 0\<rparr>"

section \<open>Facts about the compiler and the store\<close>

lemma get_conditions_append:
  "get_conditions m (a @ b) =
     (case get_conditions m a of
        Inl e \<Rightarrow> Inl e
      | Inr ca \<Rightarrow> (case get_conditions m b of Inl e \<Rightarrow> Inl e | Inr cb \<Rightarrow> Inr (ca @ cb)))"
  by (induction a) (auto split: sum.splits)

lemma satisfies_Nil: "satisfies st [] r"
  by (simp add: satisfies_def)

lemma length_enumerate_filter:
  "length (filter (\<lambda>(i, r). P r) (enumerate n xs)) = length (filter P xs)"
  by (induction xs arbitrary: n) auto

lemma length_matching:
  "length (matching st m conds) = length (filter (satisfies st conds) (st (mname m)))"
  by (simp add: matching_def length_enumerate_filter)

lemma length_matching_Nil: "length (matching st m []) = length (st (mname m))"
  by (simp add: length_matching satisfies_Nil)

lemma generate_query_merge:
  "generate_query repo l o' sb so j lz False p =
   generate_query repo l o' sb so j lz True (default_scope repo @ p)"
  by (simp add: generate_query_def get_conditions_append split: sum.splits)

lemma count_merge:
  "count repo False p s = count repo True (default_scope repo @ p) s"
  by (simp add: count_def get_conditions_append split: sum.splits)

lemmas compile_simps =
  compile_key_def split_sep_def pop_operator_def OPERATORS_def apply_operator_def getattr_def
  boolean_compare_def no_attribute_def no_relationship_def no_mapper_def

lemmas example_simps =
  User_def Post_def user_rows_def post_rows_def example_tables_def example_session_def
  active_users_def all_users_def

lemmas store_simps = satisfies_def cell_def sql_eq_def order_le_def

lemma compile_id:
  "getattr m ''id'' = Some (Column idc) \<Longrightarrow> compile_key m ''id'' v = Inr (Eq idc v)"
  by (simp add: compile_key_def)

lemma matching_empty_iff:
  "(matching st m conds = []) = (\<forall>r \<in> set (st (mname m)). \<not> satisfies st conds r)"
proof -
  have "(matching st m conds = []) = (length (matching st m conds) = 0)" by simp
  also have "\<dots> = (filter (satisfies st conds) (st (mname m)) = [])"
    by (simp only: length_matching length_0_conv)
  finally show ?thesis by (simp add: filter_empty_conv)
qed

lemma satisfies_append:
  "satisfies st (a @ b) r = (satisfies st a r \<and> satisfies st b r)"
  by (simp add: satisfies_def)

lemma page_Nil: "page lim off [] = []"
  by (simp add: page_def Let_def split: option.splits)

lemma ordered_Nil: "ordered ob [] = []"
  by (simp add: ordered_def sort_by_def split: option.splits direction.splits)

lemma find_no_match:
  assumes "generate_query repo 1 0 sb so j lz d [(''id'', ident)] = Inr q"
      and "matching (store s) (q_model q) (q_conditions q) = []"
  shows "find repo ident sb so j lz d s =
           (Inl (NoResultFound (mname (model repo) @ '' with id '' @ py_str ident @ '' not found.'')),
            s\<lparr>executed := executed s @ [Select q]\<rparr>)"
  using assms by (simp add: find_def execute_def page_Nil ordered_Nil)

lemma generate_query_plain:
  assumes "get_conditions (model repo) (default_scope repo) = Inr dc"
      and "get_conditions (model repo) p = Inr sc"
  shows "generate_query repo l o' None so None None False p =
           Inr \<lparr>q_model = model repo, q_conditions = dc @ sc, q_options = [],
                q_order_by = None, q_limit = Some l, q_offset = Some o'\<rparr>"
  using assms by (simp add: generate_query_def load_options_def)

lemma py_str_2: "py_str (VInt 2) = ''2''"
  by (simp add: py_str_def str_of_int_def str_of_nat.simps)

lemma generate_query_model:
  "generate_query repo l o' sb so j lz d p = Inr q \<Longrightarrow> q_model q = model repo"
  by (auto simp: generate_query_def apply_order_by_def Let_def
           split: sum.splits option.splits if_splits attr.splits)

lemma select_no_match:
  "matching (store s) (q_model q) (q_conditions q) = [] \<Longrightarrow>
   execute (Select q) s = (Inr (Rows []), s\<lparr>executed := executed s @ [Select q]\<rparr>)"
  by (simp add: execute_def page_Nil ordered_Nil)

lemma compile_key_unresolved:
  assumes "unresolved m k = Some (m', n)"
  shows "\<exists>e. compile_key m k v = Inl e \<and> identifies e m' n"
proof (cases "has_sep k")
  case False
  with assms show ?thesis
    by (auto simp: unresolved_def compile_key_def identifies_def split: if_splits)
next
  case True
  obtain op parts where pp: "pop_operator (split_sep k) = (op, parts)"
    by (cases "pop_operator (split_sep k)")
  with True assms show ?thesis
    by (auto simp: unresolved_def compile_key_def identifies_def
          split: if_splits list.splits option.splits attr.splits)
qed

lemma get_conditions_first_failure:
  "get_conditions m pre = Inr cs \<Longrightarrow> compile_key m k v = Inl e \<Longrightarrow>
   get_conditions m (pre @ (k, v) # post) = Inl e"
  by (simp add: get_conditions_append)

lemma generate_query_scope:
  "generate_query repo l o' sb so j lz d p =
   generate_query repo l o' sb so j lz True ((if d then [] else default_scope repo) @ p)"
  by (cases d) (simp_all add: generate_query_merge)

lemma count_scope:
  "count repo d p s = count repo True ((if d then [] else default_scope repo) @ p) s"
  by (cases d) (simp_all add: count_merge)

lemma generate_query_fails:
  "get_conditions (model repo) ((if d then [] else default_scope repo) @ p) = Inl e \<Longrightarrow>
   generate_query repo l o' sb so j lz d p = Inl e"
  by (subst generate_query_scope) (simp add: generate_query_def)

lemma count_fails:
  "get_conditions (model repo) ((if d then [] else default_scope repo) @ p) = Inl e \<Longrightarrow>
   count repo d p s = (Inl e, s)"
  by (subst count_scope) (simp add: count_def)

lemma generate_query_order_fails:
  assumes "get_conditions (model repo) ((if d then [] else default_scope repo) @ p) = Inr cs"
      and "sb \<noteq> []" and "getattr (model repo) sb = None"
  shows "generate_query repo l o' (Some sb) so j lz d p = Inl (no_attribute (model repo) sb)"
  using assms
  by (subst generate_query_scope) (simp add: generate_query_def apply_order_by_def)

lemma unresolved_filter_fails:
  assumes name: "unresolved (model repo) k = Some (m', n)"
      and before: "get_conditions (model repo) pre = Inr cs"
  shows "\<exists>e. compile_key (model repo) k v = Inl e \<and> identifies e m' n
     \<and> ((if d then [] else default_scope repo) @ p = pre @ (k, v) # post \<longrightarrow>
          where_rows repo l o' sb so j lz d p s = (Inl e, s)
          \<and> count repo d p s = (Inl e, s)
          \<and> exists repo d p s = (Inl e, s)
          \<and> (bound_twice p = None \<longrightarrow>
               find_by repo sb so j lz d p s = (Inl e, s)
               \<and> find_by_or_raise repo sb so j lz d p s = (Inl e, s)))
     \<and> ((if d then [] else default_scope repo) @ [(''id'', ident)] = pre @ (k, v) # post \<longrightarrow>
          find repo ident sb so j lz d s = (Inl e, s))
     \<and> (default_scope repo @ [(''id'', ident)] = pre @ (k, v) # post \<longrightarrow>
          update repo ident u s = (Inl e, s) \<and> destroy repo ident s = (Inl e, s))
     \<and> (p = pre @ (k, v) # post \<longrightarrow>
          update_all repo u p s = (Inl e, s) \<and> destroy_all repo p s = (Inl e, s))"
proof -
  obtain e where e: "compile_key (model repo) k v = Inl e" "identifies e m' n"
    using compile_key_unresolved [OF name] by blast
  have fail: "get_conditions (model repo) (pre @ (k, v) # post) = Inl e"
    using get_conditions_first_failure [OF before e(1)] .
  have reads: "where_rows repo l o' sb so j lz d p s = (Inl e, s)
          \<and> count repo d p s = (Inl e, s)
          \<and> exists repo d p s = (Inl e, s)
          \<and> (bound_twice p = None \<longrightarrow>
               find_by repo sb so j lz d p s = (Inl e, s)
               \<and> find_by_or_raise repo sb so j lz d p s = (Inl e, s))"
    if "(if d then [] else default_scope repo) @ p = pre @ (k, v) # post"
  proof -
    have g: "get_conditions (model repo) ((if d then [] else default_scope repo) @ p) = Inl e"
      using that fail by simp
    show ?thesis
      by (simp add: where_rows_def exists_def find_by_def find_by_or_raise_def
            generate_query_fails [OF g] count_fails [OF g])
  qed
  have fi: "find repo ident sb so j lz d s = (Inl e, s)"
    if "(if d then [] else default_scope repo) @ [(''id'', ident)] = pre @ (k, v) # post"
    for sb so j lz d
  proof -
    have g: "get_conditions (model repo)
        ((if d then [] else default_scope repo) @ [(''id'', ident)]) = Inl e"
      using that fail by simp
    show ?thesis
      by (simp add: find_def generate_query_fails [OF g])
  qed
  have ud: "update repo ident u s = (Inl e, s) \<and> destroy repo ident s = (Inl e, s)"
    if "default_scope repo @ [(''id'', ident)] = pre @ (k, v) # post"
    using fi [of False None "''asc''" None None] that by (simp add: update_def destroy_def)
  have bulk: "update_all repo u p s = (Inl e, s) \<and> destroy_all repo p s = (Inl e, s)"
    if "p = pre @ (k, v) # post"
    using that fail by (simp add: update_all_def destroy_all_def)
  show ?thesis
    using e reads fi [of d sb so j lz] ud bulk by (intro exI [of _ e]) simp
qed

lemma generate_query_empty_sorted_by:
  "generate_query repo l o' (Some []) so j lz d p = generate_query repo l o' None so j lz d p"
  by (simp add: generate_query_def Let_def split: sum.splits)

lemma empty_sorted_by_is_none:
  "where_rows repo l o' (Some []) so j lz d p s = where_rows repo l o' None so j lz d p s
   \<and> find_by repo (Some []) so j lz d p s = find_by repo None so j lz d p s
   \<and> find_by_or_raise repo (Some []) so j lz d p s = find_by_or_raise repo None so j lz d p s
   \<and> find repo ident (Some []) so j lz d s = find repo ident None so j lz d s"
  unfolding where_rows_def find_by_def find_by_or_raise_def find_def
    generate_query_empty_sorted_by
  by simp

lemma unresolved_order_fails:
  assumes "sb \<noteq> []" and "getattr (model repo) sb = None"
  shows "(get_conditions (model repo) ((if d then [] else default_scope repo) @ p) = Inr cs \<longrightarrow>
          where_rows repo l o' (Some sb) so j lz d p s = (Inl (no_attribute (model repo) sb), s)
          \<and> (bound_twice p = None \<longrightarrow>
               find_by repo (Some sb) so j lz d p s = (Inl (no_attribute (model repo) sb), s)
               \<and> find_by_or_raise repo (Some sb) so j lz d p s =
                   (Inl (no_attribute (model repo) sb), s)))
     \<and> (get_conditions (model repo) ((if d then [] else default_scope repo) @ [(''id'', ident)])
          = Inr ci \<longrightarrow>
          find repo ident (Some sb) so j lz d s = (Inl (no_attribute (model repo) sb), s))"
  using assms
  by (simp add: where_rows_def find_by_def find_by_or_raise_def find_def
        generate_query_order_fails)

lemma order_le_total: "order_le a b \<or> order_le b a"
  by (cases a; cases b) (auto simp: order_le_def)

lemma order_le_trans: "order_le a b \<Longrightarrow> order_le b c \<Longrightarrow> order_le a c"
  by (cases a; cases b; cases c) (auto simp: order_le_def)

lemma set_insert_by: "set (insert_by le x ys) = insert x (set ys)"
  by (induction ys) auto

lemma set_sort_by: "set (sort_by le xs) = set xs"
  by (induction xs) (simp_all add: sort_by_def set_insert_by)

lemma sorted_insert_by:
  assumes total: "\<And>a b. le a b \<or> le b a"
      and trans: "\<And>a b c. le a b \<Longrightarrow> le b c \<Longrightarrow> le a c"
  shows "sorted_wrt le ys \<Longrightarrow> sorted_wrt le (insert_by le x ys)"
proof (induction ys)
  case Nil
  then show ?case by simp
next
  case (Cons y ys)
  show ?case
  proof (cases "le x y")
    case True
    with Cons.prems trans show ?thesis by auto
  next
    case False
    with total have "le y x" by blast
    with Cons False show ?thesis by (auto simp: set_insert_by)
  qed
qed

lemma sorted_sort_by:
  assumes "\<And>a b. le a b \<or> le b a" and "\<And>a b c. le a b \<Longrightarrow> le b c \<Longrightarrow> le a c"
  shows "sorted_wrt le (sort_by le xs)"
proof (induction xs)
  case Nil
  then show ?case by (simp add: sort_by_def)
next
  case (Cons x xs)
  have "sort_by le (x # xs) = insert_by le x (sort_by le xs)"
    by (simp add: sort_by_def)
  with Cons sorted_insert_by [of le, OF assms] show ?case by simp
qed

lemma ordered_ascending:
  "sorted_wrt (\<lambda>a b. order_le (cell (snd a) c) (cell (snd b) c)) (ordered (Some (c, Asc)) xs)"
proof -
  have eq: "(\<lambda>(i, r) (j, s). order_le (cell r c) (cell s c)) =
      (\<lambda>a b. order_le (cell (snd a) c) (cell (snd b) c))"
    by (simp add: fun_eq_iff split: prod.splits)
  show ?thesis
    unfolding ordered_def option.case prod.case direction.case eq
    by (rule sorted_sort_by) (use order_le_total order_le_trans in blast)+
qed

lemma ordered_descending:
  "sorted_wrt (\<lambda>a b. order_le (cell (snd b) c) (cell (snd a) c)) (ordered (Some (c, Desc)) xs)"
proof -
  have eq: "(\<lambda>(i, r) (j, s). order_le (cell s c) (cell r c)) =
      (\<lambda>a b. order_le (cell (snd b) c) (cell (snd a) c))"
    by (simp add: fun_eq_iff split: prod.splits)
  show ?thesis
    unfolding ordered_def option.case prod.case direction.case eq
    by (rule sorted_sort_by) (use order_le_total order_le_trans in blast)+
qed

lemma lower_asc: "lower ''asc'' = ''asc''"
  by (simp add: lower_def lower_char_def)














lemma no_match_outcomes:
  "(generate_query repo 1 0 sb so j lz d p = Inr q \<and> bound_twice p = None
      \<and> matching (store s) (model repo) (q_conditions q) = [] \<longrightarrow>
      find_by repo sb so j lz d p s = (Inr None, s\<lparr>executed := executed s @ [Select q]\<rparr>)
      \<and> find_by_or_raise repo sb so j lz d p s =
          (Inl (NoResultFound
                 (mname (model repo) @ '' with attributes '' @ py_repr_dict p @ '' not found.'')),
           s\<lparr>executed := executed s @ [Select q]\<rparr>))
   \<and> (generate_query repo 1 0 sb so j lz d [(''id'', ident)] = Inr qi
      \<and> matching (store s) (model repo) (q_conditions qi) = [] \<longrightarrow>
      fst (find repo ident sb so j lz d s) =
        Inl (NoResultFound (mname (model repo) @ '' with id '' @ py_str ident @ '' not found.'')))
   \<and> (generate_query repo 1 0 None ''asc'' None None False [(''id'', ident)] = Inr qu
      \<and> matching (store s) (model repo) (q_conditions qu) = [] \<longrightarrow>
      fst (update repo ident u s) =
        Inl (NoResultFound (mname (model repo) @ '' with id '' @ py_str ident @ '' not found.''))
      \<and> fst (destroy repo ident s) =
        Inl (NoResultFound (mname (model repo) @ '' with id '' @ py_str ident @ '' not found.'')))
   \<and> (generate_query repo l o' sb so j lz d p = Inr qw
      \<and> matching (store s) (model repo) (q_conditions qw) = [] \<longrightarrow>
      fst (where_rows repo l o' sb so j lz d p s) = Inr [])
   \<and> ((if \<not> d then get_conditions (model repo) (default_scope repo) else Inr []) = Inr dc
      \<and> get_conditions (model repo) p = Inr sc
      \<and> matching (store s) (model repo) (dc @ sc) = [] \<longrightarrow>
      fst (count repo d p s) = Inr 0 \<and> fst (exists repo d p s) = Inr False)"
proof -
  have fb: "find_by repo sb so j lz d p s = (Inr None, s\<lparr>executed := executed s @ [Select q]\<rparr>)"
    if "generate_query repo 1 0 sb so j lz d p = Inr q" "bound_twice p = None"
       "matching (store s) (model repo) (q_conditions q) = []"
    using that generate_query_model [OF that(1)]
    by (simp add: find_by_def select_no_match)
  have fi: "fst (find repo ident sb so j lz d s) =
        Inl (NoResultFound (mname (model repo) @ '' with id '' @ py_str ident @ '' not found.''))"
    if "generate_query repo 1 0 sb so j lz d [(''id'', ident)] = Inr q'"
       "matching (store s) (model repo) (q_conditions q') = []" for sb so j lz d q'
    using that generate_query_model [OF that(1)] find_no_match [OF that(1)] by simp
  have wh: "fst (where_rows repo l o' sb so j lz d p s) = Inr []"
    if "generate_query repo l o' sb so j lz d p = Inr qw"
       "matching (store s) (model repo) (q_conditions qw) = []"
    using that generate_query_model [OF that(1)]
    by (simp add: where_rows_def select_no_match unique_def)
  have co: "fst (count repo d p s) = Inr 0"
    if "(if \<not> d then get_conditions (model repo) (default_scope repo) else Inr []) = Inr dc"
       "get_conditions (model repo) p = Inr sc" "matching (store s) (model repo) (dc @ sc) = []"
    using that by (simp add: count_def execute_def)
  have ex: "fst (exists repo d p s) = Inr False" if "fst (count repo d p s) = Inr 0"
    using that by (cases "count repo d p s") (auto simp: exists_def split: sum.splits)
  have ud: "fst (update repo ident u s) = Inl e \<and> fst (destroy repo ident s) = Inl e"
    if "fst (find repo ident None ''asc'' None None False s) = Inl e" for e
    using that by (cases "find repo ident None ''asc'' None None False s")
      (auto simp: update_def destroy_def split: sum.splits)
  show ?thesis
    using fb fi wh co ex ud
    by (simp add: find_by_or_raise_def)
qed

section \<open>The claims\<close>

subsection \<open>The default scope: merged by the reads, not by the bulk writes\<close>


subsection \<open>Names that do not resolve fail before execution\<close>

text \<open>
  C2. A name that does not resolve stops the operation before it executes anything: the
  session comes back as it went in. Filter keys are compiled in order, the default
  scope's first (unless disabled), then the explicit ones, and the first key that fails
  decides the error. When the keys before it compile and its field does not resolve
  (on the repository's entity: the field of a plain or \<open>field__operator\<close> key or the
  relationship of a longer key; on the relationship's target: the field of a longer
  key), every operation that compiles the key fails with the \<^verbatim>\<open>AttributeError\<close> that
  names that entity and that name (\<^verbatim>\<open>find_by\<close> and \<^verbatim>\<open>find_by_or_raise\<close> when no key is
  \<open>limit\<close> or \<open>offset\<close>). When the filters compile, a \<^verbatim>\<open>sorted_by\<close> that is not empty and
  does not resolve makes \<^verbatim>\<open>where\<close>, \<^verbatim>\<open>find_by\<close>, \<^verbatim>\<open>find_by_or_raise\<close> and \<^verbatim>\<open>find\<close> fail with
  the error naming the entity and the \<^verbatim>\<open>sorted_by\<close>. An empty \<^verbatim>\<open>sorted_by\<close> is the same
  as none: the query built and the outcome of each of these operations are those of the
  call without a \<^verbatim>\<open>sorted_by\<close>.
\<close>

theorem unresolved_names_fail_before_execution:
  "(unresolved (model repo) k = Some (m', n) \<and> get_conditions (model repo) pre = Inr cs \<longrightarrow>
     (\<exists>e. compile_key (model repo) k v = Inl e \<and> identifies e m' n
     \<and> ((if d then [] else default_scope repo) @ p = pre @ (k, v) # post \<longrightarrow>
          where_rows repo l o' sb so j lz d p s = (Inl e, s)
          \<and> count repo d p s = (Inl e, s)
          \<and> exists repo d p s = (Inl e, s)
          \<and> (bound_twice p = None \<longrightarrow>
               find_by repo sb so j lz d p s = (Inl e, s)
               \<and> find_by_or_raise repo sb so j lz d p s = (Inl e, s)))
     \<and> ((if d then [] else default_scope repo) @ [(''id'', ident)] = pre @ (k, v) # post \<longrightarrow>
          find repo ident sb so j lz d s = (Inl e, s))
     \<and> (default_scope repo @ [(''id'', ident)] = pre @ (k, v) # post \<longrightarrow>
          update repo ident u s = (Inl e, s) \<and> destroy repo ident s = (Inl e, s))
     \<and> (p = pre @ (k, v) # post \<longrightarrow>
          update_all repo u p s = (Inl e, s) \<and> destroy_all repo p s = (Inl e, s))))
   \<and> (ob \<noteq> [] \<and> getattr (model repo) ob = None \<longrightarrow>
       (get_conditions (model repo) ((if d then [] else default_scope repo) @ p) = Inr cs' \<longrightarrow>
          where_rows repo l o' (Some ob) so j lz d p s = (Inl (no_attribute (model repo) ob), s)
          \<and> (bound_twice p = None \<longrightarrow>
               find_by repo (Some ob) so j lz d p s = (Inl (no_attribute (model repo) ob), s)
               \<and> find_by_or_raise repo (Some ob) so j lz d p s =
                   (Inl (no_attribute (model repo) ob), s)))
     \<and> (get_conditions (model repo) ((if d then [] else default_scope repo) @ [(''id'', ident)])
          = Inr ci \<longrightarrow>
          find repo ident (Some ob) so j lz d s = (Inl (no_attribute (model repo) ob), s)))
   \<and> generate_query repo l o' (Some []) so j lz d p = generate_query repo l o' None so j lz d p
   \<and> where_rows repo l o' (Some []) so j lz d p s = where_rows repo l o' None so j lz d p s
   \<and> find_by repo (Some []) so j lz d p s = find_by repo None so j lz d p s
   \<and> find_by_or_raise repo (Some []) so j lz d p s = find_by_or_raise repo None so j lz d p s
   \<and> find repo ident (Some []) so j lz d s = find repo ident None so j lz d s"
  using unresolved_filter_fails [of repo k m' n pre cs v d p post l o' sb so j lz s ident u]
    unresolved_order_fails [of ob repo d p cs' l o' so j lz s ident ci]
    generate_query_empty_sorted_by [of repo l o' so j lz d p]
    empty_sorted_by_is_none [of repo l o' so j lz d p s ident]
  by blast

text \<open>
  C2 as stated fails on the empty \<^verbatim>\<open>sorted_by\<close>. The empty string resolves to no
  attribute of the entity, yet \<^verbatim>\<open>where(sorted_by="")\<close> raises nothing, executes its
  query and returns the rows: \<^verbatim>\<open>if sorted_by:\<close> takes it for no ordering.
\<close>

theorem unresolved_names_counterexample:
  "getattr User [] = None
   \<and> where_rows all_users 100 0 (Some []) ''asc'' None None False [(''id'', VInt 1)]
        example_session =
       (Inr [(0, [(''id'', VInt 1), (''name'', VStr ''Test User''), (''age'', VInt 30),
                  (''is_active'', VBool True)])],
        example_session\<lparr>executed :=
          [Select \<lparr>q_model = User, q_conditions = [Eq ''id'' (VInt 1)], q_options = [],
                   q_order_by = None, q_limit = Some 100, q_offset = Some 0\<rparr>]\<rparr>)"
proof -
  have a: "getattr User [] = None"
    by (simp add: getattr_def User_def)
  have c: "compile_key User ''id'' (VInt 1) = Inr (Eq ''id'' (VInt 1))"
    by (simp add: compile_simps User_def)
  have m: "matching example_tables User [Eq ''id'' (VInt 1)] =
      [(0, [(''id'', VInt 1), (''name'', VStr ''Test User''), (''age'', VInt 30),
            (''is_active'', VBool True)])]"
    by (simp add: matching_def example_tables_def user_rows_def User_def store_simps)
  have b: "where_rows all_users 100 0 (Some []) ''asc'' None None False [(''id'', VInt 1)]
        example_session =
       (Inr [(0, [(''id'', VInt 1), (''name'', VStr ''Test User''), (''age'', VInt 30),
                  (''is_active'', VBool True)])],
        example_session\<lparr>executed :=
          [Select \<lparr>q_model = User, q_conditions = [Eq ''id'' (VInt 1)], q_options = [],
                   q_order_by = None, q_limit = Some 100, q_offset = Some 0\<rparr>]\<rparr>)"
    by (simp add: where_rows_def generate_query_def load_options_def all_users_def c
          execute_def example_session_def m page_def ordered_def unique_def)
  show ?thesis using a b by simp
qed

theorem unresolved_names_fail_before_execution_witness:
  "where_rows active_users 100 0 None ''asc'' None None False [(''nofield'', VInt 1)]
      example_session = (Inl (no_attribute User ''nofield''), example_session)
   \<and> count active_users False [(''nofield'', VInt 1)] example_session =
       (Inl (no_attribute User ''nofield''), example_session)
   \<and> find_by active_users None ''asc'' None None False [(''nofield'', VInt 1)] example_session =
       (Inl (no_attribute User ''nofield''), example_session)
   \<and> update_all all_users [(''age'', VInt 1)] [(''posts__body'', VStr ''x'')] example_session =
       (Inl (no_attribute Post ''body''), example_session)
   \<and> destroy_all all_users [(''comments__body'', VStr ''x'')] example_session =
       (Inl (no_relationship User ''comments''), example_session)
   \<and> find soft_deleted (VInt 1) None ''asc'' None None False example_session =
       (Inl (no_attribute User ''deleted_at''), example_session)
   \<and> update soft_deleted (VInt 1) [(''age'', VInt 1)] example_session =
       (Inl (no_attribute User ''deleted_at''), example_session)
   \<and> destroy soft_deleted (VInt 1) example_session =
       (Inl (no_attribute User ''deleted_at''), example_session)
   \<and> where_rows active_users 100 0 (Some ''height'') ''asc'' None None False [] example_session =
       (Inl (no_attribute User ''height''), example_session)
   \<and> find active_users (VInt 1) (Some ''height'') ''asc'' None None False example_session =
       (Inl (no_attribute User ''height''), example_session)"
proof -
  have mr: "model active_users = User" "default_scope active_users = [(''is_active'', VBool True)]"
    "model all_users = User" "default_scope all_users = []"
    "model soft_deleted = User" "default_scope soft_deleted = [(''deleted_at'', VNone)]"
    by (simp_all add: active_users_def all_users_def soft_deleted_def)
  have ck: "compile_key User ''is_active'' (VBool True) = Inr (Eq ''is_active'' (VBool True))"
    "compile_key User ''id'' (VInt 1) = Inr (Eq ''id'' (VInt 1))"
    "compile_key User ''nofield'' (VInt 1) = Inl (no_attribute User ''nofield'')"
    "compile_key User ''posts__body'' (VStr ''x'') = Inl (no_attribute Post ''body'')"
    "compile_key User ''comments__body'' (VStr ''x'') = Inl (no_relationship User ''comments'')"
    "compile_key User ''deleted_at'' VNone = Inl (no_attribute User ''deleted_at'')"
    by (simp_all add: compile_key_def split_sep_def pop_operator_def OPERATORS_def
          apply_operator_def getattr_def User_def Post_def)
  have un: "unresolved User ''nofield'' = Some (User, ''nofield'')"
    "unresolved User ''posts__body'' = Some (Post, ''body'')"
    "unresolved User ''comments__body'' = Some (User, ''comments'')"
    "unresolved User ''deleted_at'' = Some (User, ''deleted_at'')"
    by (simp_all add: unresolved_def split_sep_def pop_operator_def OPERATORS_def
          getattr_def User_def Post_def)
  have ga: "getattr User ''height'' = None"
    by (simp add: getattr_def User_def)
  have bt: "bound_twice [(''nofield'', VInt 1)] = None"
    by (simp add: bound_twice_def)
  have A: "where_rows active_users 100 0 None ''asc'' None None False [(''nofield'', VInt 1)]
      example_session = (Inl (no_attribute User ''nofield''), example_session)
   \<and> count active_users False [(''nofield'', VInt 1)] example_session =
       (Inl (no_attribute User ''nofield''), example_session)
   \<and> find_by active_users None ''asc'' None None False [(''nofield'', VInt 1)] example_session =
       (Inl (no_attribute User ''nofield''), example_session)"
    using unresolved_names_fail_before_execution [where repo = active_users and k = "''nofield''"
        and m' = User and n = "''nofield''" and pre = "[(''is_active'', VBool True)]"
        and cs = "[Eq ''is_active'' (VBool True)]" and v = "VInt 1" and d = False
        and p = "[(''nofield'', VInt 1)]" and post = "[]" and l = 100 and o' = 0 and sb = None
        and so = "''asc''" and j = None and lz = None and s = example_session and ob = "''x''"]
    by (simp add: mr ck un bt)
  have B: "update_all all_users [(''age'', VInt 1)] [(''posts__body'', VStr ''x'')] example_session =
       (Inl (no_attribute Post ''body''), example_session)"
    using unresolved_names_fail_before_execution [where repo = all_users
        and k = "''posts__body''" and m' = Post and n = "''body''" and pre = "[]" and cs = "[]"
        and v = "VStr ''x''" and p = "[(''posts__body'', VStr ''x'')]" and post = "[]"
        and u = "[(''age'', VInt 1)]" and s = example_session and ob = "''x''"]
    by (simp add: mr ck un)
  have C: "destroy_all all_users [(''comments__body'', VStr ''x'')] example_session =
       (Inl (no_relationship User ''comments''), example_session)"
    using unresolved_names_fail_before_execution [where repo = all_users
        and k = "''comments__body''" and m' = User and n = "''comments''" and pre = "[]"
        and cs = "[]" and v = "VStr ''x''" and p = "[(''comments__body'', VStr ''x'')]"
        and post = "[]" and s = example_session and ob = "''x''"]
    by (simp add: mr ck un)
  have D: "find soft_deleted (VInt 1) None ''asc'' None None False example_session =
       (Inl (no_attribute User ''deleted_at''), example_session)
   \<and> update soft_deleted (VInt 1) [(''age'', VInt 1)] example_session =
       (Inl (no_attribute User ''deleted_at''), example_session)
   \<and> destroy soft_deleted (VInt 1) example_session =
       (Inl (no_attribute User ''deleted_at''), example_session)"
    using unresolved_names_fail_before_execution [where repo = soft_deleted
        and k = "''deleted_at''" and m' = User and n = "''deleted_at''" and pre = "[]"
        and cs = "[]" and v = VNone and d = False and post = "[(''id'', VInt 1)]"
        and ident = "VInt 1" and sb = None and so = "''asc''" and j = None and lz = None
        and u = "[(''age'', VInt 1)]" and s = example_session and ob = "''x''"]
    by (simp add: mr ck un)
  have E: "where_rows active_users 100 0 (Some ''height'') ''asc'' None None False [] example_session =
       (Inl (no_attribute User ''height''), example_session)
   \<and> find active_users (VInt 1) (Some ''height'') ''asc'' None None False example_session =
       (Inl (no_attribute User ''height''), example_session)"
    using unresolved_names_fail_before_execution [where repo = active_users and ob = "''height''"
        and d = False and p = "[]" and cs' = "[Eq ''is_active'' (VBool True)]" and l = 100
        and o' = 0 and so = "''asc''" and j = None and lz = None and s = example_session
        and ident = "VInt 1" and ci = "[Eq ''is_active'' (VBool True), Eq ''id'' (VInt 1)]"
        and k = "''x''" and pre = "[]"]
    by (simp add: mr ck ga)
  show ?thesis using A B C D E by simp
qed

subsection \<open>Zero matches\<close>

text \<open>
  C3, evaluated where the code departs from it. The entity \<open>Quota\<close> has a column
  \<open>limit\<close>, and no row of its table has the limit 5: the filter set \<^verbatim>\<open>limit=5\<close>
  compiles to equality on that column and matches zero rows, and \<^verbatim>\<open>count\<close> returns 0
  for it. \<^verbatim>\<open>find_by\<close> passes \<^verbatim>\<open>limit=1\<close> next to \<^verbatim>\<open>**search_params\<close>: the keyword is
  bound twice and the call fails with \<^verbatim>\<open>TypeError\<close> before anything is compiled or
  executed, where its docstring has it return \<^verbatim>\<open>None\<close>. \<^verbatim>\<open>find_by_or_raise\<close> fails with
  the same error, and not with the not-found error.
\<close>

theorem find_by_raises_on_filter_named_limit:
  "getattr Quota ''limit'' = Some (Column ''limit'')
   \<and> get_conditions Quota [(''limit'', VInt 5)] = Inr [Eq ''limit'' (VInt 5)]
   \<and> matching (store quota_session) Quota [Eq ''limit'' (VInt 5)] = []
   \<and> count quotas False [(''limit'', VInt 5)] quota_session =
       (Inr 0, quota_session\<lparr>executed := [SelectCount Quota [Eq ''limit'' (VInt 5)]]\<rparr>)
   \<and> find_by quotas None ''asc'' None None False [(''limit'', VInt 5)] quota_session =
       (Inl (TypeError ''limit''), quota_session)
   \<and> find_by_or_raise quotas None ''asc'' None None False [(''limit'', VInt 5)] quota_session =
       (Inl (TypeError ''limit''), quota_session)"
proof -
  have a: "getattr Quota ''limit'' = Some (Column ''limit'')"
    by (simp add: getattr_def Quota_def)
  have c: "compile_key Quota ''limit'' (VInt 5) = Inr (Eq ''limit'' (VInt 5))"
    by (simp add: compile_key_def a)
  have g: "get_conditions Quota [(''limit'', VInt 5)] = Inr [Eq ''limit'' (VInt 5)]"
    by (simp add: c)
  have m: "matching (store quota_session) Quota [Eq ''limit'' (VInt 5)] = []"
    by (simp add: matching_def quota_session_def Quota_def store_simps)
  have n: "count quotas False [(''limit'', VInt 5)] quota_session =
       (Inr 0, quota_session\<lparr>executed := [SelectCount Quota [Eq ''limit'' (VInt 5)]]\<rparr>)"
    by (simp add: count_def quotas_def c execute_def m) (simp add: quota_session_def)
  have f: "find_by quotas None ''asc'' None None False [(''limit'', VInt 5)] quota_session =
       (Inl (TypeError ''limit''), quota_session)"
    by (simp add: find_by_def bound_twice_def)
  have r: "find_by_or_raise quotas None ''asc'' None None False [(''limit'', VInt 5)]
       quota_session = (Inl (TypeError ''limit''), quota_session)"
    by (simp add: find_by_or_raise_def f)
  show ?thesis using a g m n f r by simp
qed

subsection \<open>An unknown operator after a relationship hop\<close>

text \<open>
  C4, evaluated where the code departs from it. \<open>bogus\<close> is no operator, so it is not
  popped and three segments are left. The source looks at the first two and never at
  the rest (it tests \<^verbatim>\<open>len(parts) == 1\<close> and takes every other length for a hop): the
  key compiles to what \<open>posts__title\<close> compiles to, equality on the title of a related
  post, and \<^verbatim>\<open>where\<close> executes it and returns the user whose posts match.
\<close>

theorem unknown_operator_after_hop_is_dropped:
  "''bogus'' \<notin> set (map fst OPERATORS)
   \<and> split_sep ''posts__title__bogus'' = [''posts'', ''title'', ''bogus'']
   \<and> pop_operator (split_sep ''posts__title__bogus'') =
       (''exact'', [''posts'', ''title'', ''bogus''])
   \<and> compile_key User ''posts__title__bogus'' (VStr ''x'') =
       Inr (AnyRel ''Post'' ''id'' ''user_id'' (Eq ''title'' (VStr ''x'')))
   \<and> compile_key User ''posts__title'' (VStr ''x'') =
       Inr (AnyRel ''Post'' ''id'' ''user_id'' (Eq ''title'' (VStr ''x'')))
   \<and> fst (where_rows all_users 100 0 None ''asc'' None None False
            [(''posts__title__bogus'', VStr ''x'')] example_session) =
       Inr [(0, [(''id'', VInt 1), (''name'', VStr ''Test User''), (''age'', VInt 30),
                 (''is_active'', VBool True)])]"
proof -
  have a: "''bogus'' \<notin> set (map fst OPERATORS)"
    by (simp add: OPERATORS_def)
  have b: "split_sep ''posts__title__bogus'' = [''posts'', ''title'', ''bogus'']"
    by (simp add: split_sep_def)
  have c: "pop_operator (split_sep ''posts__title__bogus'') =
       (''exact'', [''posts'', ''title'', ''bogus''])"
    by (simp add: b pop_operator_def OPERATORS_def)
  have d: "compile_key User ''posts__title__bogus'' (VStr ''x'') =
       Inr (AnyRel ''Post'' ''id'' ''user_id'' (Eq ''title'' (VStr ''x'')))"
    "compile_key User ''posts__title'' (VStr ''x'') =
       Inr (AnyRel ''Post'' ''id'' ''user_id'' (Eq ''title'' (VStr ''x'')))"
    by (simp_all add: compile_simps User_def Post_def)
  have m: "matching example_tables User
        [AnyRel ''Post'' ''id'' ''user_id'' (Eq ''title'' (VStr ''x''))] =
      [(0, [(''id'', VInt 1), (''name'', VStr ''Test User''), (''age'', VInt 30),
            (''is_active'', VBool True)])]"
    by (simp add: matching_def example_tables_def user_rows_def post_rows_def User_def
          store_simps)
  have e: "fst (where_rows all_users 100 0 None ''asc'' None None False
            [(''posts__title__bogus'', VStr ''x'')] example_session) =
       Inr [(0, [(''id'', VInt 1), (''name'', VStr ''Test User''), (''age'', VInt 30),
                 (''is_active'', VBool True)])]"
    by (simp add: where_rows_def generate_query_def load_options_def all_users_def d
          execute_def example_session_def m page_def ordered_def unique_def)
  show ?thesis using a b c d e by simp
qed

subsection \<open>The one-hop relationship filter\<close>



subsection \<open>The \<^verbatim>\<open>in\<close> operator\<close>




subsection \<open>\<^verbatim>\<open>exists\<close> and \<^verbatim>\<open>count\<close>\<close>

text \<open>
  C7. \<^verbatim>\<open>exists\<close> returns whether the number \<^verbatim>\<open>count\<close> returns is positive, fails as
  \<^verbatim>\<open>count\<close> fails, and leaves the session as \<^verbatim>\<open>count\<close> leaves it. When the filters
  compile, \<^verbatim>\<open>count\<close> returns the number of rows of the table that satisfy the default
  scope's conditions (unless disabled) and the explicit ones, \<^verbatim>\<open>exists\<close> returns whether
  there is such a row, and with no such row they return 0 and false.
\<close>

theorem exists_iff_count_positive:
  "exists repo d p s = (map_sum id (\<lambda>n. 0 < n) (fst (count repo d p s)), snd (count repo d p s))
   \<and> ((if \<not> d then get_conditions (model repo) (default_scope repo) else Inr []) = Inr dc
        \<and> get_conditions (model repo) p = Inr sc \<longrightarrow>
      fst (count repo d p s) =
        Inr (int (length (filter (satisfies (store s) (dc @ sc)) (store s (mname (model repo))))))
      \<and> fst (exists repo d p s) =
        Inr (\<exists>r \<in> set (store s (mname (model repo))). satisfies (store s) (dc @ sc) r)
      \<and> (filter (satisfies (store s) (dc @ sc)) (store s (mname (model repo))) = [] \<longrightarrow>
           fst (count repo d p s) = Inr 0 \<and> fst (exists repo d p s) = Inr False))"
proof -
  have rel: "exists repo d p s =
      (map_sum id (\<lambda>n. 0 < n) (fst (count repo d p s)), snd (count repo d p s))"
    by (cases "count repo d p s") (auto simp: exists_def split: sum.splits)
  have val: "fst (count repo d p s) =
        Inr (int (length (filter (satisfies (store s) (dc @ sc)) (store s (mname (model repo))))))"
    if "(if \<not> d then get_conditions (model repo) (default_scope repo) else Inr []) = Inr dc"
       "get_conditions (model repo) p = Inr sc"
    using that by (simp add: count_def execute_def length_matching)
  show ?thesis
    using rel val by (auto simp: filter_empty_conv)
qed

theorem exists_iff_count_positive_witness:
  "fst (count active_users False [(''age__gte'', VInt 30)] example_session) = Inr 2
   \<and> fst (exists active_users False [(''age__gte'', VInt 30)] example_session) = Inr True"
  using exists_iff_count_positive [of active_users False "[(''age__gte'', VInt 30)]"
      example_session "[Eq ''is_active'' (VBool True)]" "[Ge ''age'' (VInt 30)]"]
  by (simp add: compile_simps example_simps store_simps)

subsection \<open>The direction of the ordering\<close>

text \<open>
  C8. For a \<^verbatim>\<open>sorted_by\<close> that resolves to a column, the ordering is ascending when the
  lower-cased \<^verbatim>\<open>sorted_order\<close> is \<open>asc\<close>, which the string \<open>asc\<close> itself is, and
  descending for every other value; this is the ordering of the query the read
  operations execute. The store returns the rows of an ascending ordering in
  non-decreasing order of that column and those of a descending one in non-increasing
  order.
\<close>

theorem sorted_order_chooses_direction:
  "lower ''asc'' = ''asc''
   \<and> (getattr (model repo) sb = Some (Column c) \<longrightarrow>
        apply_order_by (model repo) q sb so =
          Inr (q\<lparr>q_order_by := Some (c, if lower so = ''asc'' then Asc else Desc)\<rparr>)
        \<and> (sb \<noteq> [] \<and> get_conditions (model repo) ((if d then [] else default_scope repo) @ p)
              = Inr cs \<longrightarrow>
             generate_query repo l o' (Some sb) so j lz d p =
               Inr \<lparr>q_model = model repo, q_conditions = cs,
                    q_options = load_options j lz,
                    q_order_by = Some (c, if lower so = ''asc'' then Asc else Desc),
                    q_limit = Some l, q_offset = Some o'\<rparr>))
   \<and> sorted_wrt (\<lambda>a b. order_le (cell (snd a) c) (cell (snd b) c)) (ordered (Some (c, Asc)) xs)
   \<and> sorted_wrt (\<lambda>a b. order_le (cell (snd b) c) (cell (snd a) c)) (ordered (Some (c, Desc)) xs)"
proof -
  have ao: "apply_order_by (model repo) q sb so =
          Inr (q\<lparr>q_order_by := Some (c, if lower so = ''asc'' then Asc else Desc)\<rparr>)"
    if "getattr (model repo) sb = Some (Column c)" for q
    using that by (simp add: apply_order_by_def)
  have gq: "generate_query repo l o' (Some sb) so j lz d p =
               Inr \<lparr>q_model = model repo, q_conditions = cs,
                    q_options = load_options j lz,
                    q_order_by = Some (c, if lower so = ''asc'' then Asc else Desc),
                    q_limit = Some l, q_offset = Some o'\<rparr>"
    if "getattr (model repo) sb = Some (Column c)" "sb \<noteq> []"
       "get_conditions (model repo) ((if d then [] else default_scope repo) @ p) = Inr cs"
  proof -
    have "generate_query repo l o' (Some sb) so j lz d p =
        generate_query repo l o' (Some sb) so j lz True ((if d then [] else default_scope repo) @ p)"
      by (rule generate_query_scope)
    also have "\<dots> = Inr \<lparr>q_model = model repo, q_conditions = cs,
                    q_options = load_options j lz,
                    q_order_by = Some (c, if lower so = ''asc'' then Asc else Desc),
                    q_limit = Some l, q_offset = Some o'\<rparr>"
      using that by (simp add: generate_query_def ao)
    finally show ?thesis .
  qed
  show ?thesis
    using lower_asc ao gq ordered_ascending [of c xs] ordered_descending [of c xs] by simp
qed

text \<open>
  C8 as stated fails on \<open>ASC\<close>: it is another value than the string \<open>asc\<close>, and the
  ordering is ascending, since the source compares \<^verbatim>\<open>sorted_order.lower()\<close>.
\<close>

theorem sorted_order_counterexample:
  "''ASC'' \<noteq> ''asc''
   \<and> generate_query all_users 100 0 (Some ''age'') ''ASC'' None None False [] =
       Inr \<lparr>q_model = User, q_conditions = [], q_options = [],
            q_order_by = Some (''age'', Asc), q_limit = Some 100, q_offset = Some 0\<rparr>
   \<and> map (\<lambda>x. cell (snd x) ''age'')
        (case fst (where_rows all_users 100 0 (Some ''age'') ''ASC'' None None False []
                    example_session) of Inr rows \<Rightarrow> rows | Inl e \<Rightarrow> []) =
       [VInt 18, VInt 30, VInt 80]"
proof -
  have g: "generate_query all_users 100 0 (Some ''age'') ''ASC'' None None False [] =
       Inr \<lparr>q_model = User, q_conditions = [], q_options = [],
            q_order_by = Some (''age'', Asc), q_limit = Some 100, q_offset = Some 0\<rparr>"
    by (simp add: generate_query_def load_options_def all_users_def apply_order_by_def
          getattr_def User_def lower_def lower_char_def)
  have m: "matching example_tables User [] = enumerate 0 user_rows"
    by (simp add: matching_def example_tables_def User_def satisfies_def)
  have w: "map (\<lambda>x. cell (snd x) ''age'')
        (case fst (where_rows all_users 100 0 (Some ''age'') ''ASC'' None None False []
                    example_session) of Inr rows \<Rightarrow> rows | Inl e \<Rightarrow> []) =
       [VInt 18, VInt 30, VInt 80]"
    by (simp add: where_rows_def g execute_def example_session_def m user_rows_def
          page_def ordered_def sort_by_def order_le_def cell_def unique_def)
  show ?thesis using g w by simp
qed

theorem sorted_order_chooses_direction_witness:
  "generate_query all_users 100 0 (Some ''age'') ''asc'' None None False [] =
       Inr \<lparr>q_model = User, q_conditions = [], q_options = [],
            q_order_by = Some (''age'', Asc), q_limit = Some 100, q_offset = Some 0\<rparr>
   \<and> generate_query all_users 100 0 (Some ''age'') ''Asc'' None None False [] =
       Inr \<lparr>q_model = User, q_conditions = [], q_options = [],
            q_order_by = Some (''age'', Asc), q_limit = Some 100, q_offset = Some 0\<rparr>
   \<and> generate_query all_users 100 0 (Some ''age'') ''desc'' None None False [] =
       Inr \<lparr>q_model = User, q_conditions = [], q_options = [],
            q_order_by = Some (''age'', Desc), q_limit = Some 100, q_offset = Some 0\<rparr>
   \<and> generate_query all_users 100 0 (Some ''age'') ''ascending'' None None False [] =
       Inr \<lparr>q_model = User, q_conditions = [], q_options = [],
            q_order_by = Some (''age'', Desc), q_limit = Some 100, q_offset = Some 0\<rparr>"
proof -
  have mr: "model all_users = User" "default_scope all_users = []"
    by (simp_all add: all_users_def)
  have ga: "getattr User ''age'' = Some (Column ''age'')"
    by (simp add: getattr_def User_def)
  have lo: "lower ''asc'' = ''asc''" "lower ''Asc'' = ''asc''" "lower ''desc'' = ''desc''"
    "lower ''ascending'' = ''ascending''"
    by (simp_all add: lower_def lower_char_def)
  have opts: "load_options None None = []"
    by (simp add: load_options_def)
  note T = sorted_order_chooses_direction [where repo = all_users and sb = "''age''"
      and c = "''age''" and d = False and p = "[]" and cs = "[]" and l = 100 and o' = 0
      and j = None and lz = None]
  show ?thesis
    using T [where so = "''asc''"] T [where so = "''Asc''"] T [where so = "''desc''"]
      T [where so = "''ascending''"]
    by (simp add: mr ga lo opts)
qed

subsection \<open>Bulk writes with no filter\<close>

text \<open>
  C9. Called with no filter expression at all, \<^verbatim>\<open>update_all\<close> and \<^verbatim>\<open>destroy_all\<close>
  compile the empty condition list, execute one bulk statement that reaches every row
  of the entity's table (each row is assigned the updates, or the table is emptied),
  commit, and return the number of rows the table held at the call. For \<^verbatim>\<open>update_all\<close>
  this is for updates the database accepts: at least one, each on a column of the
  entity.
\<close>

theorem empty_filter_bulk_reaches_every_row:
  "get_conditions (model repo) [] = Inr []
   \<and> (updates \<noteq> [] \<and> list_all (\<lambda>(k, v). is_column (getattr (model repo) k)) updates \<longrightarrow>
        update_all repo updates [] s =
          (Inr (length (store s (mname (model repo)))),
           commit (s\<lparr>store := (store s)(mname (model repo) :=
                       map (assign (mapped_values (model repo) updates))
                           (store s (mname (model repo)))),
                    executed := executed s @ [Update (model repo) [] updates]\<rparr>)))
   \<and> destroy_all repo [] s =
       (Inr (length (store s (mname (model repo)))),
        commit (s\<lparr>store := (store s)(mname (model repo) := []),
                 executed := executed s @ [Delete (model repo) []]\<rparr>))"
  by (simp add: update_all_def destroy_all_def execute_def length_matching_Nil satisfies_Nil)

theorem empty_filter_bulk_reaches_every_row_witness:
  "fst (update_all all_users [(''age'', VInt 1)] [] example_session) = Inr 3
   \<and> store (snd (update_all all_users [(''age'', VInt 1)] [] example_session)) ''User'' =
       [[(''id'', VInt 1), (''name'', VStr ''Test User''), (''age'', VInt 1),
         (''is_active'', VBool True)],
        [(''id'', VInt 2), (''name'', VStr ''Bob''), (''age'', VInt 1),
         (''is_active'', VBool False)],
        [(''id'', VInt 3), (''name'', VStr ''Eve''), (''age'', VInt 1),
         (''is_active'', VBool True)]]
   \<and> fst (destroy_all all_users [] example_session) = Inr 3
   \<and> store (snd (destroy_all all_users [] example_session)) ''User'' = []"
proof -
  have mr: "model all_users = User" "mname User = ''User''"
    by (simp_all add: all_users_def User_def)
  have ga: "getattr User ''age'' = Some (Column ''age'')"
    by (simp add: getattr_def User_def)
  have mv: "mapped_values User [(''age'', VInt 1)] = [(''age'', VInt 1)]"
    by (simp add: mapped_values_def ga)
  have tab: "store example_session ''User'' = user_rows"
    by (simp add: example_session_def example_tables_def)
  have up: "map (assign [(''age'', VInt 1)]) user_rows =
       [[(''id'', VInt 1), (''name'', VStr ''Test User''), (''age'', VInt 1),
         (''is_active'', VBool True)],
        [(''id'', VInt 2), (''name'', VStr ''Bob''), (''age'', VInt 1),
         (''is_active'', VBool False)],
        [(''id'', VInt 3), (''name'', VStr ''Eve''), (''age'', VInt 1),
         (''is_active'', VBool True)]]"
    by (simp add: user_rows_def assign_def)
  have len: "length user_rows = 3"
    by (simp add: user_rows_def)
  show ?thesis
    using empty_filter_bulk_reaches_every_row [of all_users "[(''age'', VInt 1)]" example_session]
    by (simp add: mr ga mv tab up len commit_def)
qed

subsection \<open>\<^verbatim>\<open>update\<close> and \<^verbatim>\<open>destroy\<close> under the default scope\<close>

text \<open>
  C10. \<^verbatim>\<open>update\<close> and \<^verbatim>\<open>destroy\<close> take no \<^verbatim>\<open>disable_default_scope\<close> argument and call
  \<^verbatim>\<open>find\<close> with the scope enabled. So for a row of the table that carries the id, is the
  only row that carries it, and fails a condition of the default scope, both fail with
  the not-found error naming the entity and the id; the session has executed the one
  lookup and nothing else, and the tables are as before.
\<close>

theorem scoped_out_row_is_out_of_reach:
  assumes scope: "get_conditions (model repo) (default_scope repo) = Inr dc"
      and idcol: "getattr (model repo) ''id'' = Some (Column idc)"
      and row: "r \<in> set (store s (mname (model repo)))"
      and rid: "sql_eq (cell r idc) ident"
      and out: "\<not> satisfies (store s) dc r"
      and key: "\<forall>r' \<in> set (store s (mname (model repo))). sql_eq (cell r' idc) ident \<longrightarrow> r' = r"
  shows "update repo ident u s =
           (Inl (NoResultFound (mname (model repo) @ '' with id '' @ py_str ident @ '' not found.'')),
            s\<lparr>executed := executed s @
                 [Select \<lparr>q_model = model repo, q_conditions = dc @ [Eq idc ident], q_options = [],
                          q_order_by = None, q_limit = Some 1, q_offset = Some 0\<rparr>]\<rparr>)
         \<and> destroy repo ident s = (Inl (NoResultFound
               (mname (model repo) @ '' with id '' @ py_str ident @ '' not found.'')),
            s\<lparr>executed := executed s @
                 [Select \<lparr>q_model = model repo, q_conditions = dc @ [Eq idc ident], q_options = [],
                          q_order_by = None, q_limit = Some 1, q_offset = Some 0\<rparr>]\<rparr>)
         \<and> store (snd (update repo ident u s)) = store s
         \<and> store (snd (destroy repo ident s)) = store s"
proof -
  let ?q = "\<lparr>q_model = model repo, q_conditions = dc @ [Eq idc ident], q_options = [],
             q_order_by = None, q_limit = Some 1, q_offset = Some 0\<rparr>"
  have ic: "get_conditions (model repo) [(''id'', ident)] = Inr [Eq idc ident]"
    using idcol by (simp add: compile_id)
  have gq: "generate_query repo 1 0 None ''asc'' None None False [(''id'', ident)] = Inr ?q"
    using generate_query_plain [OF scope ic] by simp
  have nn: "ident \<noteq> VNone" using rid by (simp add: sql_eq_def)
  have none: "matching (store s) (model repo) (dc @ [Eq idc ident]) = []"
  proof -
    have "\<not> satisfies (store s) (dc @ [Eq idc ident]) r'"
      if "r' \<in> set (store s (mname (model repo)))" for r'
    proof
      assume sat: "satisfies (store s) (dc @ [Eq idc ident]) r'"
      then have "sql_eq (cell r' idc) ident"
        using nn by (simp add: satisfies_append satisfies_def)
      with key that have "r' = r" by blast
      with sat out show False by (simp add: satisfies_append)
    qed
    then show ?thesis by (simp add: matching_empty_iff)
  qed
  have f: "find repo ident None ''asc'' None None False s =
      (Inl (NoResultFound (mname (model repo) @ '' with id '' @ py_str ident @ '' not found.'')),
       s\<lparr>executed := executed s @ [Select ?q]\<rparr>)"
    using find_no_match [OF gq] none by simp
  show ?thesis
    by (simp add: update_def destroy_def f)
qed

theorem scoped_out_row_is_out_of_reach_witness:
  "update active_users (VInt 2) [(''age'', VInt 19)] example_session =
     (Inl (NoResultFound ''User with id 2 not found.''),
      example_session\<lparr>executed :=
        [Select \<lparr>q_model = User,
                 q_conditions = [Eq ''is_active'' (VBool True), Eq ''id'' (VInt 2)],
                 q_options = [], q_order_by = None, q_limit = Some 1, q_offset = Some 0\<rparr>]\<rparr>)
   \<and> fst (destroy active_users (VInt 2) example_session) =
       Inl (NoResultFound ''User with id 2 not found.'')
   \<and> store (snd (destroy active_users (VInt 2) example_session)) = store example_session"
proof -
  let ?bob = "[(''id'', VInt 2), (''name'', VStr ''Bob''), (''age'', VInt 18),
               (''is_active'', VBool False)]"
  have scope: "get_conditions (model active_users) (default_scope active_users) =
      Inr [Eq ''is_active'' (VBool True)]"
    by (simp add: compile_simps active_users_def User_def)
  have idcol: "getattr (model active_users) ''id'' = Some (Column ''id'')"
    by (simp add: getattr_def active_users_def User_def)
  have tab: "store example_session (mname (model active_users)) = user_rows"
    by (simp add: example_session_def example_tables_def active_users_def User_def)
  have row: "?bob \<in> set (store example_session (mname (model active_users)))"
    unfolding tab by (simp add: user_rows_def)
  have rid: "sql_eq (cell ?bob ''id'') (VInt 2)"
    by (simp add: sql_eq_def cell_def)
  have out: "\<not> satisfies (store example_session) [Eq ''is_active'' (VBool True)] ?bob"
    by (simp add: satisfies_def sql_eq_def cell_def)
  have key: "\<forall>r' \<in> set (store example_session (mname (model active_users))).
      sql_eq (cell r' ''id'') (VInt 2) \<longrightarrow> r' = ?bob"
    unfolding tab by (simp add: user_rows_def sql_eq_def cell_def)
  have nm: "mname User = ''User''" "model active_users = User"
    by (simp_all add: active_users_def User_def)
  have ex: "executed example_session = []"
    by (simp add: example_session_def)
  show ?thesis
    using scoped_out_row_is_out_of_reach [OF scope idcol row rid out key, of "[(''age'', VInt 19)]"]
    by (simp add: nm ex py_str_2)
qed

end
